theory Spec2Isabelle
  imports Main
begin

section \<open>Data model of \<^verbatim>\<open>src/node/entry.ts\<close>\<close>

text \<open>
  JavaScript values that may be \<^verbatim>\<open>undefined\<close> are options. A condition
  \<^verbatim>\<open>if (x)\<close> or \<^verbatim>\<open>!!x\<close> tests truthiness: an optional boolean is truthy when it
  is \<^verbatim>\<open>true\<close>, an optional array when it is defined (also when empty), an optional
  string when it is defined and not empty.
\<close>

definition truthy_bool :: "bool option \<Rightarrow> bool" where
  "truthy_bool b = (b = Some True)"

definition truthy_array :: "'a list option \<Rightarrow> bool" where
  "truthy_array xs = (xs \<noteq> None)"

definition truthy_string :: "string option \<Rightarrow> bool" where
  "truthy_string s = (case s of None \<Rightarrow> False | Some t \<Rightarrow> t \<noteq> [])"

text \<open>
  Modelled from the spec: the interface \<^verbatim>\<open>Args\<close> is declared in \<^verbatim>\<open>./cli\<close>, which is
  not among the sources. The record holds the fields that \<^verbatim>\<open>entry.ts\<close> reads, with the
  shape the spec gives the Invocation: the ordered positional paths (\<^verbatim>\<open>args._\<close>) and
  optional flags. \<^verbatim>\<open>arg_help\<close> is \<^verbatim>\<open>args.help\<close>, \<^verbatim>\<open>arg_new_window\<close> is
  \<^verbatim>\<open>args["new-window"]\<close>, and so on.
\<close>

record Args =
  positional :: "string list"
  arg_help :: "bool option"
  arg_version :: "bool option"
  arg_json :: "bool option"
  arg_list_extensions :: "bool option"
  arg_install_extension :: "string list option"
  arg_uninstall_extension :: "string list option"
  arg_reuse_window :: "bool option"
  arg_new_window :: "bool option"

text \<open>
  The message built by \<^verbatim>\<open>openInExistingInstance\<close> (lines 85--91); \<open>msg_type\<close> is its
  field \<^verbatim>\<open>type\<close>.
\<close>

record OpenCommandPipeArgs =
  msg_type :: string
  folderURIs :: "string list"
  fileURIs :: "string list"
  forceReuseWindow :: "bool option"
  forceNewWindow :: "bool option"

text \<open>
  The message sent to the forked CLI (line 48): \<^verbatim>\<open>{ type: "cli", args }\<close>, with
  \<open>cli_type\<close> for its field \<^verbatim>\<open>type\<close>.
\<close>

record CliMessage =
  cli_type :: string
  cli_args :: Args

text \<open>
  A value received on the fork's channel is typed \<^verbatim>\<open>any\<close>. Reading \<^verbatim>\<open>message.type\<close>
  throws on \<^verbatim>\<open>null\<close>; on every other value it gives the property, which is compared
  with \<^verbatim>\<open>"ready"\<close> by \<^verbatim>\<open>!==\<close>, so only its being a string and which one matters:
  \<open>None\<close> stands for a property that is absent or not a string.
\<close>

datatype js_message = JsNull | JsMessage "string option"

subsection \<open>Effects\<close>

datatype level = Trace | Debug | Info | Warn | Error

datatype payload = PString string | PMessage js_message | PKind "string option"

text \<open>The options object of \<^verbatim>\<open>http.request\<close> (lines 122--126).\<close>

record request_options =
  req_path :: string
  req_method :: string
  req_socketPath :: string

text \<open>
  Everything the process does to the outside is an action of its trace, in program order.
  \<^verbatim>\<open>Write\<close> carries the message that \<^verbatim>\<open>JSON.stringify\<close> serialises.
  \<^verbatim>\<open>Main\<close> is the call of \<^verbatim>\<open>main\<close> (lines 142--238), the server's body,
  \<^verbatim>\<open>WrapperStart\<close> is \<^verbatim>\<open>new WrapperProcess(...).start()\<close>, and \<^verbatim>\<open>GetEnv\<close> is the
  reading of one named variable of \<^verbatim>\<open>process.env\<close>.
\<close>

datatype action =
    Log level string "(string \<times> payload) list"
  | ConsoleLog "string list"
  | ConsoleLogObject "(string \<times> string) list"
  | ProcessExit nat
  | Fork nat
  | Send CliMessage
  | HttpRequest request_options
  | Write OpenCommandPipeArgs
  | End
  | Handshake
  | PreventExit
  | Main Args Args Args
  | WrapperStart "string option"
  | GetEnv string

text \<open>
  How a call ends: it returns a value, the process exits (\<^verbatim>\<open>process.exit\<close>), an error
  is thrown to the caller (a rejected promise), an awaited promise never settles, or an
  error is thrown where nothing catches it (inside an event handler).
\<close>

datatype 'a outcome = Returned 'a | Exited nat | Threw string | Pending | Uncaught string

text \<open>
  The file system as \<^verbatim>\<open>fs.stat\<close> sees it, and \<^verbatim>\<open>path.resolve\<close> (which depends on the
  working directory); both belong to Node, so they are parameters.
\<close>

datatype stat_result = StatDirectory | StatOther | StatFails

record filesystem =
  resolve :: "string \<Rightarrow> string"
  stat :: "string \<Rightarrow> stat_result"

section \<open>Delegating to an existing instance\<close>

text \<open>Lines 93--100: a failing \<^verbatim>\<open>stat\<close> is caught and gives \<^verbatim>\<open>false\<close>.\<close>

definition isDir :: "filesystem \<Rightarrow> string \<Rightarrow> bool" where
  "isDir fs p = (case stat fs p of StatDirectory \<Rightarrow> True | StatOther \<Rightarrow> False | StatFails \<Rightarrow> False)"

text \<open>The loop of lines 102--109, over the positional arguments from first to last.\<close>

fun classify :: "filesystem \<Rightarrow> string list \<Rightarrow> OpenCommandPipeArgs \<Rightarrow> OpenCommandPipeArgs" where
  "classify fs [] pipeArgs = pipeArgs"
| "classify fs (a # rest) pipeArgs =
     (let fp = resolve fs a in
      if isDir fs fp
      then classify fs rest (pipeArgs\<lparr>folderURIs := folderURIs pipeArgs @ [fp]\<rparr>)
      else classify fs rest (pipeArgs\<lparr>fileURIs := fileURIs pipeArgs @ [fp]\<rparr>))"

definition initialPipeArgs :: "Args \<Rightarrow> OpenCommandPipeArgs" where
  "initialPipeArgs args =
     \<lparr>msg_type = ''open'', folderURIs = [], fileURIs = [],
      forceReuseWindow = arg_reuse_window args, forceNewWindow = arg_new_window args\<rparr>"

definition buildPipeArgs :: "filesystem \<Rightarrow> Args \<Rightarrow> OpenCommandPipeArgs" where
  "buildPipeArgs fs args = classify fs (positional args) (initialPipeArgs args)"

text \<open>
  \<^verbatim>\<open>openInExistingInstance\<close> (lines 84--140) up to its \<^verbatim>\<open>return true\<close>: the two
  checks, each ending the process, then the request, the write and the end.
\<close>

definition openInExistingInstance ::
    "filesystem \<Rightarrow> Args \<Rightarrow> string \<Rightarrow> action list \<times> bool outcome" where
  "openInExistingInstance fs args socketPath =
     (let pipeArgs = buildPipeArgs fs args in
      if truthy_bool (forceNewWindow pipeArgs) \<and> length (fileURIs pipeArgs) > 0
      then ([Log Error ''--new-window can only be used with folder paths'' [], ProcessExit 1],
            Exited 1)
      else if length (folderURIs pipeArgs) = 0 \<and> length (fileURIs pipeArgs) = 0
      then ([Log Error ''Please specify at least one file or folder'' [], ProcessExit 1],
            Exited 1)
      else ([HttpRequest \<lparr>req_path = ''/'', req_method = ''POST'', req_socketPath = socketPath\<rparr>,
             Write pipeArgs, End],
            Returned True))"

text \<open>
  What the request does afterwards reaches the two handlers of lines 127--135: data of the
  response, and an error of the request. Both only log.
\<close>

datatype request_event = ResponseData string | RequestError string

fun on_request_event :: "request_event \<Rightarrow> action list" where
  "on_request_event (ResponseData message) =
     [Log Debug ''got message from VS Code'' [(''message'', PString message)]]"
| "on_request_event (RequestError error) =
     [Log Error ''got error from VS Code'' [(''error'', PString error)]]"

text \<open>
  The delegation as the process lives it: the call, and then, when the process is still
  there, the handlers on the events of the request.
\<close>

definition delegation ::
    "filesystem \<Rightarrow> Args \<Rightarrow> string \<Rightarrow> request_event list \<Rightarrow> action list \<times> bool outcome" where
  "delegation fs args socketPath events =
     (case openInExistingInstance fs args socketPath of
        (tr, Returned b) \<Rightarrow> (tr @ concat (map on_request_event events), Returned b)
      | (tr, out) \<Rightarrow> (tr, out))"

definition is_socket_io :: "action \<Rightarrow> bool" where
  "is_socket_io a = (case a of HttpRequest _ \<Rightarrow> True | Write _ \<Rightarrow> True | End \<Rightarrow> True | _ \<Rightarrow> False)"

definition is_write :: "action \<Rightarrow> bool" where
  "is_write a = (case a of Write _ \<Rightarrow> True | _ \<Rightarrow> False)"

definition is_log :: "action \<Rightarrow> bool" where
  "is_log a = (case a of Log _ _ _ \<Rightarrow> True | _ \<Rightarrow> False)"

section \<open>The CLI delegate\<close>

text \<open>What the forked process does, as the three listeners of lines 42--55 see it.\<close>

datatype child_event = ChildMessage js_message | ChildError string | ChildExit "nat option"

text \<open>
  The parent after \<^verbatim>\<open>runVsCodeCli\<close> has returned: which of the two \<^verbatim>\<open>once\<close>
  listeners are still registered (the \<^verbatim>\<open>exit\<close> listener is registered with \<^verbatim>\<open>on\<close> and
  stays), the trace so far, and the state of the process, where \<open>Returned ()\<close> is the
  running process waiting for events.
\<close>

record cli_process =
  message_listener :: bool
  error_listener :: bool
  cli_trace :: "action list"
  cli_status :: "unit outcome"

text \<open>\<^verbatim>\<open>code || 0\<close> of line 55, for a code that is a number or \<^verbatim>\<open>null\<close>.\<close>

definition or_zero :: "nat option \<Rightarrow> nat" where
  "or_zero code = (case code of None \<Rightarrow> 0 | Some n \<Rightarrow> n)"

text \<open>Lines 35--41 and the registration of the listeners; the argument is \<^verbatim>\<open>process.pid\<close>.\<close>

definition runVsCodeCli :: "nat \<Rightarrow> Args \<Rightarrow> cli_process" where
  "runVsCodeCli pid args =
     \<lparr>message_listener = True, error_listener = True,
      cli_trace = [Log Debug ''forking vs code cli...'' [], Fork pid],
      cli_status = Returned ()\<rparr>"

definition emit :: "action list \<Rightarrow> cli_process \<Rightarrow> cli_process" where
  "emit as s = s\<lparr>cli_trace := cli_trace s @ as\<rparr>"

definition process_exit :: "nat \<Rightarrow> cli_process \<Rightarrow> cli_process" where
  "process_exit n s = (emit [ProcessExit n] s)\<lparr>cli_status := Exited n\<rparr>"

text \<open>The listener of lines 42--50.\<close>

definition on_message :: "Args \<Rightarrow> js_message \<Rightarrow> cli_process \<Rightarrow> cli_process" where
  "on_message args message s =
     (let s1 = emit [Log Debug ''got message from VS Code'' [(''message'', PMessage message)]] s in
      case message of
        JsNull \<Rightarrow> s1\<lparr>cli_status := Uncaught ''TypeError''\<rparr>
      | JsMessage kind \<Rightarrow>
          if kind \<noteq> Some ''ready''
          then process_exit 1
                 (emit [Log Error ''Unexpected response waiting for ready response''
                          [(''type'', PKind kind)]] s1)
          else emit [Send \<lparr>cli_type = ''cli'', cli_args = args\<rparr>] s1)"

text \<open>
  One event of the fork. A process that is gone handles nothing. A \<^verbatim>\<open>once\<close> listener is
  removed before it runs; a message with no listener left is dropped, and an \<^verbatim>\<open>error\<close>
  event with no listener left is thrown by the emitter.
\<close>

fun on_child_event :: "Args \<Rightarrow> cli_process \<Rightarrow> child_event \<Rightarrow> cli_process" where
  "on_child_event args s (ChildMessage message) =
     (if cli_status s \<noteq> Returned () then s
      else if message_listener s then on_message args message (s\<lparr>message_listener := False\<rparr>)
      else s)"
| "on_child_event args s (ChildError error) =
     (if cli_status s \<noteq> Returned () then s
      else if error_listener s
      then process_exit 1
             (emit [Log Error ''Got error from VS Code'' [(''error'', PString error)]]
                (s\<lparr>error_listener := False\<rparr>))
      else s\<lparr>cli_status := Uncaught error\<rparr>)"
| "on_child_event args s (ChildExit code) =
     (if cli_status s \<noteq> Returned () then s else process_exit (or_zero code) s)"

definition cli_delegate :: "nat \<Rightarrow> Args \<Rightarrow> child_event list \<Rightarrow> cli_process" where
  "cli_delegate pid args events = foldl (on_child_event args) (runVsCodeCli pid args) events"

definition is_send :: "action \<Rightarrow> bool" where
  "is_send a = (case a of Send _ \<Rightarrow> True | _ \<Rightarrow> False)"

section \<open>The entry point\<close>

text \<open>
  \<^verbatim>\<open>package.json\<close> as lines 20--28 read it. A \<^verbatim>\<open>require\<close> of a file of the
  installation is taken to load, as the imports are; the fields may be missing.
\<close>

record package_json =
  pkg_version :: "string option"
  pkg_commit :: "string option"

definition or_development :: "string option \<Rightarrow> string" where
  "or_development s = (if truthy_string s then (case s of Some t \<Rightarrow> t | None \<Rightarrow> ''development'')
                       else ''development'')"

text \<open>
  \<^verbatim>\<open>ipcMain.handshake()\<close> belongs to \<^verbatim>\<open>./wrapper\<close>, which is not among the sources:
  the awaited promise resolves, rejects or never settles.
\<close>

datatype handshake_result = HandshakeResolves | HandshakeRejects string | HandshakeNeverSettles

text \<open>
  What \<^verbatim>\<open>entry\<close> takes from outside: the role (\<^verbatim>\<open>ipcMain.isChild\<close>), the environment
  variable, the process id, the two package files, the option descriptions of \<^verbatim>\<open>./cli\<close>,
  the file system, how the handshake, \<^verbatim>\<open>main\<close> and \<^verbatim>\<open>wrapper.start()\<close> end, and
  the events that the request and the fork deliver. \<open>accepts_connection\<close> says of each
  address whether an instance listens on it, which is what a connection to it would find;
  nothing in \<^verbatim>\<open>entry.ts\<close> asks.
\<close>

record environment =
  isChild :: bool
  VSCODE_IPC_HOOK_CLI :: "string option"
  accepts_connection :: "string \<Rightarrow> bool"
  pid :: nat
  package :: package_json
  vscode_version :: string
  optionDescriptions :: "string list"
  files :: filesystem
  handshake :: handshake_result
  main_outcome :: "unit outcome"
  wrapper_outcome :: "unit outcome"
  request_events :: "request_event list"
  child_events :: "child_event list"

definition version :: "environment \<Rightarrow> string" where
  "version env = or_development (pkg_version (package env))"

definition commit :: "environment \<Rightarrow> string" where
  "commit env = or_development (pkg_commit (package env))"

text \<open>Lines 30--32.\<close>

definition shouldRunVsCodeCli :: "Args \<Rightarrow> bool" where
  "shouldRunVsCodeCli args =
     (truthy_bool (arg_list_extensions args) \<or> truthy_array (arg_install_extension args)
      \<or> truthy_array (arg_uninstall_extension args))"

text \<open>
  Lines 58--79: the variable is read and returned when truthy; everything after it is
  comments, and the function returns \<^verbatim>\<open>undefined\<close>.
\<close>

definition shouldOpenInExistingInstance ::
    "environment \<Rightarrow> Args \<Rightarrow> action list \<times> string option" where
  "shouldOpenInExistingInstance env args =
     (if truthy_string (VSCODE_IPC_HOOK_CLI env)
      then ([GetEnv ''VSCODE_IPC_HOOK_CLI''], VSCODE_IPC_HOOK_CLI env)
      else ([GetEnv ''VSCODE_IPC_HOOK_CLI''], None))"

text \<open>Lines 262--269.\<close>

definition help_output :: "environment \<Rightarrow> action list" where
  "help_output env =
     [ConsoleLog [''code-server'', version env, commit env],
      ConsoleLog [[]],
      ConsoleLog [''Usage: code-server [options] [path]''],
      ConsoleLog [[]],
      ConsoleLog [''Options'']]
     @ map (\<lambda>description. ConsoleLog [[], description]) (optionDescriptions env)"

text \<open>Lines 274--282.\<close>

definition version_output :: "environment \<Rightarrow> Args \<Rightarrow> action list" where
  "version_output env args =
     (if truthy_bool (arg_json args)
      then [ConsoleLogObject [(''codeServer'', version env), (''commit'', commit env),
                              (''vscode'', vscode_version env)]]
      else [ConsoleLog [version env, commit env]])"

text \<open>
  Line 292 calls \<^verbatim>\<open>openInExistingInstance\<close> and drops its promise: the value is not
  read, and an exit of the process is an exit all the same.
\<close>

definition dropped :: "bool outcome \<Rightarrow> unit outcome" where
  "dropped out =
     (case out of Returned b \<Rightarrow> Returned () | Exited n \<Rightarrow> Exited n | Threw e \<Rightarrow> Uncaught e
      | Pending \<Rightarrow> Returned () | Uncaught e \<Rightarrow> Uncaught e)"

text \<open>
  \<^verbatim>\<open>entry\<close> (lines 240--297). The argument is what \<^verbatim>\<open>tryParse\<close> gives: an error
  thrown by the parsing, or the three argument records. The test \<^verbatim>\<open>if (socketPath)\<close>
  of line 291 is the truthiness of the probe's result; under it the result is a string, so
  the case \<open>None\<close> below is never taken.
\<close>

definition entry ::
    "environment \<Rightarrow> string + (Args \<times> Args \<times> Args) \<Rightarrow> action list \<times> unit outcome" where
  "entry env parsed =
     (case parsed of
        Inl error \<Rightarrow> ([], Threw error)
      | Inr (args, cliArgs, configArgs) \<Rightarrow>
          if isChild env then
            (case handshake env of
               HandshakeResolves \<Rightarrow>
                 ([Handshake, PreventExit, Main args cliArgs configArgs], main_outcome env)
             | HandshakeRejects error \<Rightarrow> ([Handshake], Threw error)
             | HandshakeNeverSettles \<Rightarrow> ([Handshake], Pending))
          else if truthy_bool (arg_help args) then (help_output env, Returned ())
          else if truthy_bool (arg_version args) then (version_output env args, Returned ())
          else if shouldRunVsCodeCli args then
            (let s = cli_delegate (pid env) args (child_events env)
             in (cli_trace s, cli_status s))
          else
            (case shouldOpenInExistingInstance env args of
               (probe, socketPath) \<Rightarrow>
                 if truthy_string socketPath then
                   (case socketPath of
                      Some sock \<Rightarrow>
                        (case delegation (files env) args sock (request_events env) of
                           (tr, out) \<Rightarrow> (probe @ tr, dropped out))
                    | None \<Rightarrow> (probe, Returned ()))
                 else (probe @ [WrapperStart (pkg_version (package env))], wrapper_outcome env)))"

text \<open>Kinds of actions, to speak about traces.\<close>

definition is_console :: "action \<Rightarrow> bool" where
  "is_console a = (case a of ConsoleLog _ \<Rightarrow> True | ConsoleLogObject _ \<Rightarrow> True | _ \<Rightarrow> False)"

definition is_cli_delegation :: "action \<Rightarrow> bool" where
  "is_cli_delegation a = (case a of Fork _ \<Rightarrow> True | Send _ \<Rightarrow> True | _ \<Rightarrow> False)"

definition is_probe :: "action \<Rightarrow> bool" where
  "is_probe a = (case a of GetEnv _ \<Rightarrow> True | _ \<Rightarrow> False)"

definition is_server_start :: "action \<Rightarrow> bool" where
  "is_server_start a = (case a of WrapperStart _ \<Rightarrow> True | Main _ _ _ \<Rightarrow> True | _ \<Rightarrow> False)"

text \<open>What the arbitration may do after the tests of the help and version flags.\<close>

definition is_arbitration :: "action \<Rightarrow> bool" where
  "is_arbitration a =
     (is_cli_delegation a \<or> is_probe a \<or> is_socket_io a \<or> is_server_start a)"

text \<open>
  Every action of the trace that starts or runs the server comes after the handshake and
  after the registration of the exit guard; the first argument is the trace so far.
\<close>

fun served_after_handshake :: "action list \<Rightarrow> action list \<Rightarrow> bool" where
  "served_after_handshake seen [] = True"
| "served_after_handshake seen (a # tr) =
     ((if is_server_start a then Handshake \<in> set seen \<and> PreventExit \<in> set seen else True)
      \<and> served_after_handshake (seen @ [a]) tr)"

section \<open>Concrete inputs\<close>

text \<open>
  A file system where \<^verbatim>\<open>/tmp/proj\<close> is a directory, \<^verbatim>\<open>/tmp/a.txt\<close> is a file and
  nothing else exists; every path given is absolute already.
\<close>

definition example_fs :: filesystem where
  "example_fs =
     \<lparr>resolve = (\<lambda>p. p),
      stat = (\<lambda>p. if p = ''/tmp/proj'' then StatDirectory
                 else if p = ''/tmp/a.txt'' then StatOther else StatFails)\<rparr>"

definition example_args :: Args where
  "example_args =
     \<lparr>positional = [''/tmp/proj'', ''/tmp/a.txt''], arg_help = None, arg_version = None,
      arg_json = None, arg_list_extensions = None, arg_install_extension = None,
      arg_uninstall_extension = None, arg_reuse_window = None, arg_new_window = None\<rparr>"

text \<open>
  A parent process started from the terminal of a running instance, whose socket refuses
  the connection.
\<close>

definition example_env :: environment where
  "example_env =
     \<lparr>isChild = False, VSCODE_IPC_HOOK_CLI = Some ''/tmp/vscode.sock'',
      accepts_connection = (\<lambda>address. False), pid = 4242,
      package = \<lparr>pkg_version = Some ''3.4.1'', pkg_commit = None\<rparr>,
      vscode_version = ''1.45.1'', optionDescriptions = [''-h --help''],
      files = example_fs, handshake = HandshakeResolves,
      main_outcome = Returned (), wrapper_outcome = Returned (),
      request_events = [RequestError ''ECONNREFUSED''],
      child_events = [ChildExit (Some 3)]\<rparr>"

section \<open>Properties of the delegation\<close>

lemma classify_type: "msg_type (classify fs as p) = msg_type p"
  by (induction as arbitrary: p) (simp_all add: Let_def)

lemma classify_folderURIs:
  "folderURIs (classify fs as p) = folderURIs p @ filter (isDir fs) (map (resolve fs) as)"
  by (induction as arbitrary: p) (simp_all add: Let_def)

lemma classify_fileURIs:
  "fileURIs (classify fs as p) =
     fileURIs p @ filter (\<lambda>fp. \<not> isDir fs fp) (map (resolve fs) as)"
  by (induction as arbitrary: p) (simp_all add: Let_def)

lemma classify_flags:
  "forceNewWindow (classify fs as p) = forceNewWindow p \<and>
   forceReuseWindow (classify fs as p) = forceReuseWindow p"
  by (induction as arbitrary: p) (simp_all add: Let_def)

lemma buildPipeArgs_simps:
  "msg_type (buildPipeArgs fs args) = ''open''"
  "folderURIs (buildPipeArgs fs args) = filter (isDir fs) (map (resolve fs) (positional args))"
  "fileURIs (buildPipeArgs fs args) =
     filter (\<lambda>fp. \<not> isDir fs fp) (map (resolve fs) (positional args))"
  "forceNewWindow (buildPipeArgs fs args) = arg_new_window args"
  "forceReuseWindow (buildPipeArgs fs args) = arg_reuse_window args"
  by (simp_all add: buildPipeArgs_def initialPipeArgs_def classify_type classify_folderURIs
      classify_fileURIs classify_flags)

lemma isDir_iff: "isDir fs p \<longleftrightarrow> stat fs p = StatDirectory"
  by (simp add: isDir_def split: stat_result.splits)

lemma not_isDir_iff: "\<not> isDir fs p \<longleftrightarrow> stat fs p = StatOther \<or> stat fs p = StatFails"
  by (simp add: isDir_def split: stat_result.splits)

lemma files_nonempty_iff:
  "fileURIs (buildPipeArgs fs args) \<noteq> [] \<longleftrightarrow>
     (\<exists>p \<in> set (positional args). \<not> isDir fs (resolve fs p))"
  by (auto simp: buildPipeArgs_simps filter_empty_conv)

lemma no_targets_iff:
  "folderURIs (buildPipeArgs fs args) = [] \<and> fileURIs (buildPipeArgs fs args) = []
     \<longleftrightarrow> positional args = []"
proof
  assume empty: "folderURIs (buildPipeArgs fs args) = [] \<and> fileURIs (buildPipeArgs fs args) = []"
  show "positional args = []"
  proof (cases "positional args")
    case Nil
    then show ?thesis .
  next
    case (Cons a rest)
    then have "a \<in> set (positional args)" by simp
    with empty show ?thesis
      by (cases "isDir fs (resolve fs a)") (auto simp: buildPipeArgs_simps filter_empty_conv)
  qed
next
  assume "positional args = []"
  then show "folderURIs (buildPipeArgs fs args) = [] \<and> fileURIs (buildPipeArgs fs args) = []"
    by (simp add: buildPipeArgs_simps)
qed

lemma on_request_event_logs: "filter is_log (on_request_event e) = on_request_event e"
  by (cases e) (simp_all add: is_log_def)

lemma request_events_log:
  "filter is_log (concat (map on_request_event events)) = concat (map on_request_event events)"
  by (induction events) (simp_all add: on_request_event_logs)

lemma log_is_no_write: "is_log a \<Longrightarrow> \<not> is_write a"
  by (cases a) (simp_all add: is_log_def is_write_def)

lemma log_is_no_server_start: "is_log a \<Longrightarrow> \<not> is_server_start a"
  by (cases a) (simp_all add: is_log_def is_server_start_def)

lemma request_events_no_write:
  "filter is_write (concat (map on_request_event events)) = []"
proof -
  have "\<forall>a \<in> set (concat (map on_request_event events)). is_log a"
    using request_events_log [of events] by (metis filter_id_conv)
  then show ?thesis
    by (auto simp: filter_empty_conv dest: log_is_no_write)
qed

lemma request_events_no_server_start:
  "filter is_server_start (concat (map on_request_event events)) = []"
proof -
  have "\<forall>a \<in> set (concat (map on_request_event events)). is_log a"
    using request_events_log [of events] by (metis filter_id_conv)
  then show ?thesis
    by (auto simp: filter_empty_conv dest: log_is_no_server_start)
qed

text \<open>
  C4. Every positional path is resolved and tested with \<^verbatim>\<open>stat\<close>: the resolved paths
  that are directories make \<open>folderURIs\<close>, the others (a file, or a path whose
  \<^verbatim>\<open>stat\<close> fails) make \<open>fileURIs\<close>, each list in the order of the invocation, and the
  message has type \<^verbatim>\<open>"open"\<close>.
\<close>

theorem classification_of_paths:
  "msg_type (buildPipeArgs fs args) = ''open'' \<and>
   folderURIs (buildPipeArgs fs args) =
     filter (\<lambda>fp. stat fs fp = StatDirectory) (map (resolve fs) (positional args)) \<and>
   fileURIs (buildPipeArgs fs args) =
     filter (\<lambda>fp. stat fs fp = StatOther \<or> stat fs fp = StatFails)
       (map (resolve fs) (positional args))"
proof -
  have dirs: "isDir fs = (\<lambda>fp. stat fs fp = StatDirectory)"
    by (rule ext) (simp add: isDir_iff)
  have others: "(stat fs fp \<noteq> StatDirectory) = (stat fs fp = StatOther \<or> stat fs fp = StatFails)"
    for fp
    by (cases "stat fs fp") simp_all
  show ?thesis
    by (simp add: buildPipeArgs_simps dirs others)
qed

theorem classification_of_paths_example:
  "msg_type (buildPipeArgs example_fs example_args) = ''open'' \<and>
   folderURIs (buildPipeArgs example_fs example_args) = [''/tmp/proj''] \<and>
   fileURIs (buildPipeArgs example_fs example_args) = [''/tmp/a.txt'']"
  using classification_of_paths [of example_fs example_args]
  by (simp add: example_fs_def example_args_def)

text \<open>
  C2. With \<^verbatim>\<open>--new-window\<close> and at least one positional path that is not a directory,
  the delegation logs the error and exits with code 1; the trace holds no request, write or
  end, whatever the socket would have done.
\<close>

theorem new_window_with_file_is_fatal:
  assumes "truthy_bool (arg_new_window args)"
    and "\<exists>p \<in> set (positional args). \<not> isDir fs (resolve fs p)"
  shows "openInExistingInstance fs args socketPath =
           ([Log Error ''--new-window can only be used with folder paths'' [], ProcessExit 1],
            Exited 1)
         \<and> delegation fs args socketPath events = openInExistingInstance fs args socketPath
         \<and> filter is_socket_io (fst (delegation fs args socketPath events)) = []"
proof -
  have files: "fileURIs (buildPipeArgs fs args) \<noteq> []"
    using assms(2) by (simp add: files_nonempty_iff)
  have call: "openInExistingInstance fs args socketPath =
           ([Log Error ''--new-window can only be used with folder paths'' [], ProcessExit 1],
            Exited 1)"
    using assms(1) files by (simp add: openInExistingInstance_def Let_def buildPipeArgs_simps(4))
  then show ?thesis
    by (simp add: delegation_def is_socket_io_def)
qed

theorem new_window_with_file_is_fatal_witness:
  "truthy_bool (arg_new_window (example_args\<lparr>arg_new_window := Some True\<rparr>)) \<and>
   (\<exists>p \<in> set (positional (example_args\<lparr>arg_new_window := Some True\<rparr>)).
      \<not> isDir example_fs (resolve example_fs p)) \<and>
   delegation example_fs (example_args\<lparr>arg_new_window := Some True\<rparr>) ''/tmp/vscode.sock''
       [RequestError ''ECONNREFUSED'']
     = ([Log Error ''--new-window can only be used with folder paths'' [], ProcessExit 1],
        Exited 1)"
proof -
  have flag: "truthy_bool (arg_new_window (example_args\<lparr>arg_new_window := Some True\<rparr>))"
    by (simp add: truthy_bool_def)
  have other: "\<exists>p \<in> set (positional (example_args\<lparr>arg_new_window := Some True\<rparr>)).
      \<not> isDir example_fs (resolve example_fs p)"
    by (simp add: example_args_def example_fs_def isDir_def)
  show ?thesis
    using flag other new_window_with_file_is_fatal [OF flag other] by simp
qed

text \<open>
  C3. When the positional paths give no folder and no file, which is when there are none,
  the delegation logs the error and exits with code 1, and nothing is written.
\<close>

theorem no_target_is_fatal:
  assumes "folderURIs (buildPipeArgs fs args) = []" and "fileURIs (buildPipeArgs fs args) = []"
  shows "openInExistingInstance fs args socketPath =
           ([Log Error ''Please specify at least one file or folder'' [], ProcessExit 1],
            Exited 1)
         \<and> delegation fs args socketPath events = openInExistingInstance fs args socketPath
         \<and> filter is_write (fst (delegation fs args socketPath events)) = []
         \<and> filter is_socket_io (fst (delegation fs args socketPath events)) = []"
proof -
  have call: "openInExistingInstance fs args socketPath =
           ([Log Error ''Please specify at least one file or folder'' [], ProcessExit 1],
            Exited 1)"
    using assms by (simp add: openInExistingInstance_def Let_def)
  then show ?thesis
    by (simp add: delegation_def is_socket_io_def is_write_def)
qed

theorem no_target_is_fatal_witness:
  "folderURIs (buildPipeArgs example_fs (example_args\<lparr>positional := []\<rparr>)) = [] \<and>
   fileURIs (buildPipeArgs example_fs (example_args\<lparr>positional := []\<rparr>)) = [] \<and>
   delegation example_fs (example_args\<lparr>positional := []\<rparr>) ''/tmp/vscode.sock'' []
     = ([Log Error ''Please specify at least one file or folder'' [], ProcessExit 1],
        Exited 1)"
proof -
  have folders: "folderURIs (buildPipeArgs example_fs (example_args\<lparr>positional := []\<rparr>)) = []"
    by (simp add: buildPipeArgs_simps)
  have files: "fileURIs (buildPipeArgs example_fs (example_args\<lparr>positional := []\<rparr>)) = []"
    by (simp add: buildPipeArgs_simps)
  show ?thesis
    using folders files no_target_is_fatal [OF folders files] by simp
qed

text \<open>
  C9. When both checks pass, the call opens one request to the socket path, writes the
  message once, ends the request and returns \<^verbatim>\<open>true\<close>. Whatever arrives afterwards,
  data or error, adds only log entries: the trace keeps its single write and the result
  stays \<^verbatim>\<open>true\<close>.
\<close>

theorem fire_and_forget:
  assumes "\<not> (truthy_bool (arg_new_window args) \<and> fileURIs (buildPipeArgs fs args) \<noteq> [])"
    and "folderURIs (buildPipeArgs fs args) \<noteq> [] \<or> fileURIs (buildPipeArgs fs args) \<noteq> []"
  shows "openInExistingInstance fs args socketPath =
           ([HttpRequest \<lparr>req_path = ''/'', req_method = ''POST'', req_socketPath = socketPath\<rparr>,
             Write (buildPipeArgs fs args), End],
            Returned True)
         \<and> delegation fs args socketPath events =
             (fst (openInExistingInstance fs args socketPath)
                @ concat (map on_request_event events), Returned True)
         \<and> filter is_write (fst (delegation fs args socketPath events)) =
             [Write (buildPipeArgs fs args)]
         \<and> filter is_log (concat (map on_request_event events)) =
             concat (map on_request_event events)
         \<and> on_request_event (ResponseData message) =
             [Log Debug ''got message from VS Code'' [(''message'', PString message)]]"
proof -
  have call: "openInExistingInstance fs args socketPath =
           ([HttpRequest \<lparr>req_path = ''/'', req_method = ''POST'', req_socketPath = socketPath\<rparr>,
             Write (buildPipeArgs fs args), End],
            Returned True)"
    using assms by (auto simp: openInExistingInstance_def Let_def buildPipeArgs_simps(4))
  have run: "delegation fs args socketPath events =
             (fst (openInExistingInstance fs args socketPath)
                @ concat (map on_request_event events), Returned True)"
    by (simp add: delegation_def call)
  have writes: "filter is_write (fst (delegation fs args socketPath events)) =
             [Write (buildPipeArgs fs args)]"
    by (simp add: run call request_events_no_write is_write_def)
  show ?thesis
    using call run writes request_events_log by simp
qed

theorem fire_and_forget_witness:
  "\<not> (truthy_bool (arg_new_window example_args)
       \<and> fileURIs (buildPipeArgs example_fs example_args) \<noteq> []) \<and>
   folderURIs (buildPipeArgs example_fs example_args) \<noteq> [] \<and>
   delegation example_fs example_args ''/tmp/vscode.sock'' [ResponseData ''ok''] =
     ([HttpRequest \<lparr>req_path = ''/'', req_method = ''POST'',
                    req_socketPath = ''/tmp/vscode.sock''\<rparr>,
       Write \<lparr>msg_type = ''open'', folderURIs = [''/tmp/proj''], fileURIs = [''/tmp/a.txt''],
              forceReuseWindow = None, forceNewWindow = None\<rparr>,
       End,
       Log Debug ''got message from VS Code'' [(''message'', PString ''ok'')]],
      Returned True)"
proof -
  have built: "buildPipeArgs example_fs example_args =
      \<lparr>msg_type = ''open'', folderURIs = [''/tmp/proj''], fileURIs = [''/tmp/a.txt''],
       forceReuseWindow = None, forceNewWindow = None\<rparr>"
    by (simp add: buildPipeArgs_def initialPipeArgs_def example_args_def example_fs_def
        isDir_def Let_def)
  have first: "\<not> (truthy_bool (arg_new_window example_args)
       \<and> fileURIs (buildPipeArgs example_fs example_args) \<noteq> [])"
    by (simp add: example_args_def truthy_bool_def)
  have second: "folderURIs (buildPipeArgs example_fs example_args) \<noteq> []
       \<or> fileURIs (buildPipeArgs example_fs example_args) \<noteq> []"
    by (simp add: built)
  show ?thesis
    using first second
      fire_and_forget [OF first second, of "''/tmp/vscode.sock''" "[ResponseData ''ok'']"]
    by (simp add: built)
qed

subsection \<open>The CLI delegate\<close>

lemma gone_step: "cli_status s \<noteq> Returned () \<Longrightarrow> on_child_event args s e = s"
  by (cases e) simp_all

lemma gone_run: "cli_status s \<noteq> Returned () \<Longrightarrow> foldl (on_child_event args) s events = s"
  by (induction events) (simp_all add: gone_step)

lemma cli_delegate_Cons:
  "cli_delegate ppid args (e # rest) =
     foldl (on_child_event args) (on_child_event args (runVsCodeCli ppid args) e) rest"
  by (simp add: cli_delegate_def)

lemma cli_delegate_append:
  "cli_delegate ppid args (pre @ e # rest) =
     foldl (on_child_event args) (on_child_event args (cli_delegate ppid args pre) e) rest"
  by (simp add: cli_delegate_def)

lemma exit_step:
  "cli_status s = Returned () \<Longrightarrow>
     cli_status (on_child_event args s (ChildExit code)) = Exited (or_zero code)"
  by (simp add: process_exit_def emit_def)

lemma error_step:
  "cli_status s = Returned () \<Longrightarrow> error_listener s \<Longrightarrow>
     cli_status (on_child_event args s (ChildError error)) = Exited 1"
  by (simp add: process_exit_def emit_def)

lemma other_message_step:
  "cli_status s = Returned () \<Longrightarrow> message_listener s \<Longrightarrow> kind \<noteq> Some ''ready'' \<Longrightarrow>
     cli_status (on_child_event args s (ChildMessage (JsMessage kind))) = Exited 1 \<and>
     filter is_send (cli_trace (on_child_event args s (ChildMessage (JsMessage kind)))) =
       filter is_send (cli_trace s)"
  by (simp add: on_message_def process_exit_def emit_def Let_def is_send_def)

lemma ready_step:
  "cli_status s = Returned () \<Longrightarrow> message_listener s \<Longrightarrow>
     on_child_event args s (ChildMessage (JsMessage (Some ''ready''))) =
       s\<lparr>message_listener := False,
         cli_trace := cli_trace s @
           [Log Debug ''got message from VS Code''
              [(''message'', PMessage (JsMessage (Some ''ready'')))],
            Send \<lparr>cli_type = ''cli'', cli_args = args\<rparr>]\<rparr>"
  by (simp add: on_message_def emit_def Let_def)

lemma exited_stays:
  "cli_status s = Exited n \<Longrightarrow> cli_status (foldl (on_child_event args) s events) = Exited n"
  by (simp add: gone_run)

lemma error_listener_step:
  "cli_status s = Returned () \<longrightarrow> error_listener s \<Longrightarrow>
     cli_status (on_child_event args s e) = Returned () \<longrightarrow>
       error_listener (on_child_event args s e)"
  by (cases e; cases "cli_status s = Returned ()")
    (auto simp: on_message_def process_exit_def emit_def Let_def split: js_message.splits)

lemma error_listener_run:
  "cli_status s = Returned () \<longrightarrow> error_listener s \<Longrightarrow>
     cli_status (foldl (on_child_event args) s events) = Returned () \<longrightarrow>
       error_listener (foldl (on_child_event args) s events)"
proof (induction events arbitrary: s)
  case Nil
  then show ?case by simp
next
  case (Cons e events)
  have "cli_status (on_child_event args s e) = Returned () \<longrightarrow>
          error_listener (on_child_event args s e)"
    using Cons.prems by (rule error_listener_step)
  then show ?case
    using Cons.IH by simp
qed

lemma running_has_error_listener:
  "cli_status (cli_delegate ppid args pre) = Returned () \<Longrightarrow>
     error_listener (cli_delegate ppid args pre)"
  using error_listener_run [of "runVsCodeCli ppid args" args pre]
  by (simp add: cli_delegate_def runVsCodeCli_def)

lemma deaf_step:
  "\<not> message_listener s \<Longrightarrow>
     \<not> message_listener (on_child_event args s e) \<and>
     filter is_send (cli_trace (on_child_event args s e)) = filter is_send (cli_trace s)"
  by (cases e) (simp_all add: process_exit_def emit_def is_send_def)

lemma deaf_run:
  "\<not> message_listener s \<Longrightarrow>
     filter is_send (cli_trace (foldl (on_child_event args) s events)) =
       filter is_send (cli_trace s)"
proof (induction events arbitrary: s)
  case Nil
  then show ?case by simp
next
  case (Cons e events)
  from Cons.prems have step: "\<not> message_listener (on_child_event args s e)"
    and same: "filter is_send (cli_trace (on_child_event args s e)) = filter is_send (cli_trace s)"
    using deaf_step [of s args e] by simp_all
  show ?case
    using Cons.IH [OF step] same by simp
qed

lemma ready_first_sends_once:
  "filter is_send
     (cli_trace (cli_delegate ppid args (ChildMessage (JsMessage (Some ''ready'')) # rest))) =
   [Send \<lparr>cli_type = ''cli'', cli_args = args\<rparr>]"
proof -
  let ?s = "on_child_event args (runVsCodeCli ppid args) (ChildMessage (JsMessage (Some ''ready'')))"
  have step: "?s = (runVsCodeCli ppid args)\<lparr>message_listener := False,
         cli_trace := cli_trace (runVsCodeCli ppid args) @
           [Log Debug ''got message from VS Code''
              [(''message'', PMessage (JsMessage (Some ''ready'')))],
            Send \<lparr>cli_type = ''cli'', cli_args = args\<rparr>]\<rparr>"
    by (rule ready_step) (simp_all add: runVsCodeCli_def)
  then have deaf: "\<not> message_listener ?s"
    by simp
  have "filter is_send (cli_trace ?s) = [Send \<lparr>cli_type = ''cli'', cli_args = args\<rparr>]"
    by (subst step) (simp add: runVsCodeCli_def is_send_def)
  then show ?thesis
    using deaf_run [OF deaf, of args rest] by (simp add: cli_delegate_Cons)
qed

lemma other_first_exits:
  assumes "kind \<noteq> Some ''ready''"
  shows "cli_status (cli_delegate ppid args (ChildMessage (JsMessage kind) # rest)) = Exited 1"
    and "filter is_send
           (cli_trace (cli_delegate ppid args (ChildMessage (JsMessage kind) # rest))) = []"
proof -
  let ?s = "on_child_event args (runVsCodeCli ppid args) (ChildMessage (JsMessage kind))"
  have step: "cli_status ?s = Exited 1 \<and>
      filter is_send (cli_trace ?s) = filter is_send (cli_trace (runVsCodeCli ppid args))"
    using assms by (intro other_message_step) (simp_all add: runVsCodeCli_def)
  then have gone: "cli_status ?s \<noteq> Returned ()"
    by simp
  have rest: "cli_delegate ppid args (ChildMessage (JsMessage kind) # rest) = ?s"
    using gone_run [OF gone] by (simp add: cli_delegate_Cons)
  show "cli_status (cli_delegate ppid args (ChildMessage (JsMessage kind) # rest)) = Exited 1"
    using step rest by simp
  show "filter is_send
           (cli_trace (cli_delegate ppid args (ChildMessage (JsMessage kind) # rest))) = []"
    using step rest by (simp add: runVsCodeCli_def is_send_def)
qed

lemma exit_first:
  "cli_status (cli_delegate ppid args (ChildExit code # rest)) = Exited (or_zero code)"
proof -
  have "cli_status (on_child_event args (runVsCodeCli ppid args) (ChildExit code)) =
          Exited (or_zero code)"
    by (rule exit_step) (simp add: runVsCodeCli_def)
  then show ?thesis
    unfolding cli_delegate_Cons by (rule exited_stays)
qed

lemma error_first:
  "cli_status (cli_delegate ppid args (ChildError error # rest)) = Exited 1"
proof -
  have "cli_status (on_child_event args (runVsCodeCli ppid args) (ChildError error)) = Exited 1"
    by (rule error_step) (simp_all add: runVsCodeCli_def)
  then show ?thesis
    unfolding cli_delegate_Cons by (rule exited_stays)
qed

lemma error_while_running:
  assumes "cli_status (cli_delegate ppid args pre) = Returned ()"
  shows "cli_status (cli_delegate ppid args (pre @ ChildError error # rest)) = Exited 1"
proof -
  have "cli_status (on_child_event args (cli_delegate ppid args pre) (ChildError error)) = Exited 1"
    using assms running_has_error_listener [OF assms] by (rule error_step)
  then show ?thesis
    unfolding cli_delegate_append by (rule exited_stays)
qed

lemma exit_while_running:
  assumes "cli_status (cli_delegate ppid args pre) = Returned ()"
  shows "cli_status (cli_delegate ppid args (pre @ ChildExit code # rest)) = Exited (or_zero code)"
proof -
  have "cli_status (on_child_event args (cli_delegate ppid args pre) (ChildExit code)) =
          Exited (or_zero code)"
    using assms by (rule exit_step)
  then show ?thesis
    unfolding cli_delegate_append by (rule exited_stays)
qed

text \<open>
  C6. When the first thing the fork delivers is a message of type \<^verbatim>\<open>"ready"\<close>, the trace
  holds exactly one \<^verbatim>\<open>send\<close>, of \<^verbatim>\<open>{ type: "cli", args }\<close>, whatever follows. A first
  message that has another type, or none, makes the parent exit with code 1, and nothing is
  sent. While the parent runs, an \<^verbatim>\<open>error\<close> event makes it exit with code 1 and an
  \<^verbatim>\<open>exit\<close> event makes it exit with the fork's code, 0 when the code is \<^verbatim>\<open>null\<close>.
  Every event other than a message ends the parent, so a first message is always the first
  event.
\<close>

theorem cli_delegate_protocol:
  "filter is_send
     (cli_trace (cli_delegate ppid args (ChildMessage (JsMessage (Some ''ready'')) # rest))) =
     [Send \<lparr>cli_type = ''cli'', cli_args = args\<rparr>]
   \<and> (kind \<noteq> Some ''ready'' \<longrightarrow>
        cli_status (cli_delegate ppid args (ChildMessage (JsMessage kind) # rest)) = Exited 1
        \<and> filter is_send
            (cli_trace (cli_delegate ppid args (ChildMessage (JsMessage kind) # rest))) = [])
   \<and> (cli_status (cli_delegate ppid args pre) = Returned () \<longrightarrow>
        cli_status (cli_delegate ppid args (pre @ ChildError error # rest)) = Exited 1
        \<and> cli_status (cli_delegate ppid args (pre @ ChildExit None # rest)) = Exited 0
        \<and> cli_status (cli_delegate ppid args (pre @ ChildExit (Some n) # rest)) = Exited n)"
  using ready_first_sends_once [of ppid args rest] other_first_exits [of kind ppid args rest]
    error_while_running [of ppid args pre error rest]
    exit_while_running [of ppid args pre None rest]
    exit_while_running [of ppid args pre "Some n" rest]
  by (simp add: or_zero_def)

theorem cli_delegate_protocol_witness:
  "Some ''hello'' \<noteq> Some ''ready'' \<and>
   cli_status (cli_delegate 4242 example_args [ChildMessage (JsMessage (Some ''ready''))])
     = Returned () \<and>
   filter is_send (cli_trace (cli_delegate 4242 example_args
       [ChildMessage (JsMessage (Some ''ready'')), ChildMessage (JsMessage (Some ''ready''))])) =
     [Send \<lparr>cli_type = ''cli'', cli_args = example_args\<rparr>] \<and>
   cli_status (cli_delegate 4242 example_args
       [ChildMessage (JsMessage (Some ''hello'')), ChildExit (Some 0)]) = Exited 1 \<and>
   cli_status (cli_delegate 4242 example_args
       [ChildMessage (JsMessage (Some ''ready'')), ChildError ''EPIPE'', ChildExit (Some 0)])
     = Exited 1 \<and>
   cli_status (cli_delegate 4242 example_args
       [ChildMessage (JsMessage (Some ''ready'')), ChildExit None, ChildExit (Some 2)])
     = Exited 0 \<and>
   cli_status (cli_delegate 4242 example_args
       [ChildMessage (JsMessage (Some ''ready'')), ChildExit (Some 2), ChildExit None])
     = Exited 2"
proof -
  have running:
    "cli_status (cli_delegate 4242 example_args [ChildMessage (JsMessage (Some ''ready''))])
       = Returned ()"
    by (simp add: cli_delegate_def runVsCodeCli_def on_message_def emit_def Let_def)
  have sends: "filter is_send (cli_trace (cli_delegate 4242 example_args
       [ChildMessage (JsMessage (Some ''ready'')), ChildMessage (JsMessage (Some ''ready''))])) =
     [Send \<lparr>cli_type = ''cli'', cli_args = example_args\<rparr>]"
    using cli_delegate_protocol
      [of 4242 example_args "[ChildMessage (JsMessage (Some ''ready''))]"]
    by simp
  have other: "cli_status (cli_delegate 4242 example_args
       [ChildMessage (JsMessage (Some ''hello'')), ChildExit (Some 0)]) = Exited 1"
    using cli_delegate_protocol [of 4242 example_args "[ChildExit (Some 0)]" "Some ''hello''"]
    by simp
  have error: "cli_status (cli_delegate 4242 example_args
       [ChildMessage (JsMessage (Some ''ready'')), ChildError ''EPIPE'', ChildExit (Some 0)])
     = Exited 1"
    using running cli_delegate_protocol [of 4242 example_args "[ChildExit (Some 0)]" _
        "[ChildMessage (JsMessage (Some ''ready''))]" "''EPIPE''"]
    by simp
  have null: "cli_status (cli_delegate 4242 example_args
       [ChildMessage (JsMessage (Some ''ready'')), ChildExit None, ChildExit (Some 2)])
     = Exited 0"
    using running cli_delegate_protocol [of 4242 example_args "[ChildExit (Some 2)]" _
        "[ChildMessage (JsMessage (Some ''ready''))]"]
    by simp
  have code: "cli_status (cli_delegate 4242 example_args
       [ChildMessage (JsMessage (Some ''ready'')), ChildExit (Some 2), ChildExit None])
     = Exited 2"
    using running cli_delegate_protocol [of 4242 example_args "[ChildExit None]" _
        "[ChildMessage (JsMessage (Some ''ready''))]" _ 2]
    by simp
  show ?thesis
    using running sends other error null code by simp
qed

text \<open>
  C5, as the code has it. The \<^verbatim>\<open>exit\<close> listener does not ask whether a message came:
  a fork that exits before it has sent anything makes the parent exit with the fork's own
  code, 0 when there is none. The parent exits with code 1 when what it receives first is a
  message whose type is not \<^verbatim>\<open>"ready"\<close>, or an \<^verbatim>\<open>error\<close> event.
\<close>

theorem exit_before_ready:
  "cli_status (cli_delegate ppid args (ChildExit None # rest)) = Exited 0
   \<and> cli_status (cli_delegate ppid args (ChildExit (Some n) # rest)) = Exited n
   \<and> (kind \<noteq> Some ''ready'' \<longrightarrow>
        cli_status (cli_delegate ppid args (ChildMessage (JsMessage kind) # rest)) = Exited 1)
   \<and> cli_status (cli_delegate ppid args (ChildError error # rest)) = Exited 1"
  using exit_first [of ppid args None rest] exit_first [of ppid args "Some n" rest]
    other_first_exits(1) [of kind ppid args rest] error_first [of ppid args error rest]
  by (simp add: or_zero_def)

theorem exit_before_ready_witness:
  "None \<noteq> Some ''ready'' \<and>
   cli_status (cli_delegate 4242 example_args [ChildExit None]) = Exited 0 \<and>
   cli_status (cli_delegate 4242 example_args [ChildExit (Some 3)]) = Exited 3 \<and>
   cli_status (cli_delegate 4242 example_args [ChildMessage (JsMessage None), ChildExit (Some 3)])
     = Exited 1 \<and>
   cli_status (cli_delegate 4242 example_args [ChildError ''ENOENT'', ChildExit (Some 3)])
     = Exited 1"
  using exit_before_ready [of 4242 example_args "[]" 3 None]
    exit_before_ready [of 4242 example_args "[ChildExit (Some 3)]" _ None "''ENOENT''"]
  by simp

text \<open>
  The fork exits with code 3 and has sent nothing: the parent exits with code 3, not 1.
\<close>

theorem exit_before_ready_counterexample:
  "cli_status (cli_delegate 4242 example_args [ChildExit (Some 3)]) = Exited 3 \<and>
   cli_status (cli_delegate 4242 example_args [ChildExit (Some 3)]) \<noteq> Exited 1"
  by (simp add: cli_delegate_def runVsCodeCli_def process_exit_def emit_def or_zero_def)

subsection \<open>The entry point\<close>

lemma console_is_no_arbitration: "is_console a \<Longrightarrow> \<not> is_arbitration a"
  by (cases a)
    (simp_all add: is_console_def is_arbitration_def is_cli_delegation_def is_probe_def
      is_socket_io_def is_server_start_def)

lemma help_output_console: "filter is_console (help_output env) = help_output env"
  by (simp add: help_output_def is_console_def filter_id_conv)

lemma version_output_console: "filter is_console (version_output env args) = version_output env args"
  by (simp add: version_output_def is_console_def)

lemma all_console_no_arbitration:
  assumes "filter is_console tr = tr"
  shows "filter is_arbitration tr = []"
proof -
  have "\<forall>a \<in> set tr. is_console a"
    using assms by (metis filter_id_conv)
  then show ?thesis
    by (auto simp: filter_empty_conv dest: console_is_no_arbitration)
qed

lemma entry_child:
  "isChild env \<Longrightarrow>
     entry env (Inr (args, cliArgs, configArgs)) =
       (case handshake env of
          HandshakeResolves \<Rightarrow>
            ([Handshake, PreventExit, Main args cliArgs configArgs], main_outcome env)
        | HandshakeRejects error \<Rightarrow> ([Handshake], Threw error)
        | HandshakeNeverSettles \<Rightarrow> ([Handshake], Pending))"
  by (simp add: entry_def)

lemma entry_delegates:
  assumes "\<not> isChild env" and "\<not> truthy_bool (arg_help args)"
    and "\<not> truthy_bool (arg_version args)" and "\<not> shouldRunVsCodeCli args"
    and "VSCODE_IPC_HOOK_CLI env = Some address" and "address \<noteq> []"
  shows "entry env (Inr (args, cliArgs, configArgs)) =
           (GetEnv ''VSCODE_IPC_HOOK_CLI''
              # fst (delegation (files env) args address (request_events env)),
            dropped (snd (delegation (files env) args address (request_events env))))"
  using assms
  by (simp add: entry_def shouldOpenInExistingInstance_def truthy_string_def split: prod.splits)

lemma delegation_cases:
  "delegation fs args address events = openInExistingInstance fs args address
     \<and> snd (openInExistingInstance fs args address) = Exited 1
     \<and> filter is_server_start (fst (openInExistingInstance fs args address)) = []
   \<or> delegation fs args address events =
       ([HttpRequest \<lparr>req_path = ''/'', req_method = ''POST'', req_socketPath = address\<rparr>,
         Write (buildPipeArgs fs args), End] @ concat (map on_request_event events),
        Returned True)"
  by (simp add: delegation_def openInExistingInstance_def Let_def is_server_start_def)




text \<open>
  C8. In child role the trace begins with the handshake; \<^verbatim>\<open>main\<close> runs only after the
  handshake and the registration of the exit guard, in this order, and when the handshake
  resolves the trace is exactly these three. The trace has no console output (help,
  version), no fork or send, no reading of the environment signal and no request.
\<close>

theorem child_role_handshake_first:
  assumes "isChild env"
  shows "take 1 (fst (entry env (Inr (args, cliArgs, configArgs)))) = [Handshake]
     \<and> served_after_handshake [] (fst (entry env (Inr (args, cliArgs, configArgs))))
     \<and> (handshake env = HandshakeResolves \<longrightarrow>
          entry env (Inr (args, cliArgs, configArgs)) =
            ([Handshake, PreventExit, Main args cliArgs configArgs], main_outcome env))
     \<and> (handshake env \<noteq> HandshakeResolves \<longrightarrow>
          fst (entry env (Inr (args, cliArgs, configArgs))) = [Handshake])
     \<and> filter is_console (fst (entry env (Inr (args, cliArgs, configArgs)))) = []
     \<and> filter is_cli_delegation (fst (entry env (Inr (args, cliArgs, configArgs)))) = []
     \<and> filter is_probe (fst (entry env (Inr (args, cliArgs, configArgs)))) = []
     \<and> filter is_socket_io (fst (entry env (Inr (args, cliArgs, configArgs)))) = []"
  by (cases "handshake env")
    (simp_all add: entry_child [OF assms] is_server_start_def is_console_def
      is_cli_delegation_def is_probe_def is_socket_io_def)

theorem child_role_handshake_first_witness:
  "isChild (example_env\<lparr>isChild := True\<rparr>) \<and>
   handshake (example_env\<lparr>isChild := True\<rparr>) = HandshakeResolves \<and>
   entry (example_env\<lparr>isChild := True\<rparr>)
       (Inr (example_args\<lparr>arg_help := Some True\<rparr>, example_args, example_args)) =
     ([Handshake, PreventExit,
       Main (example_args\<lparr>arg_help := Some True\<rparr>) example_args example_args],
      Returned ()) \<and>
   isChild (example_env\<lparr>isChild := True, handshake := HandshakeNeverSettles\<rparr>) \<and>
   handshake (example_env\<lparr>isChild := True, handshake := HandshakeNeverSettles\<rparr>)
     \<noteq> HandshakeResolves \<and>
   fst (entry (example_env\<lparr>isChild := True, handshake := HandshakeNeverSettles\<rparr>)
       (Inr (example_args, example_args, example_args))) = [Handshake]"
proof -
  have child: "isChild (example_env\<lparr>isChild := True\<rparr>)"
    by simp
  have resolves: "handshake (example_env\<lparr>isChild := True\<rparr>) = HandshakeResolves"
    by (simp add: example_env_def)
  have main: "main_outcome (example_env\<lparr>isChild := True\<rparr>) = Returned ()"
    by (simp add: example_env_def)
  have child': "isChild (example_env\<lparr>isChild := True, handshake := HandshakeNeverSettles\<rparr>)"
    by simp
  have never: "handshake (example_env\<lparr>isChild := True, handshake := HandshakeNeverSettles\<rparr>)
     \<noteq> HandshakeResolves"
    by simp
  show ?thesis
    using child resolves main child' never
      child_role_handshake_first [OF child,
        of "example_args\<lparr>arg_help := Some True\<rparr>" example_args example_args]
      child_role_handshake_first [OF child', of example_args example_args example_args]
    by simp
qed

text \<open>
  C10. Outside child role, with \<^verbatim>\<open>--help\<close> the entry point prints the usage and
  returns, whatever the other flags and paths; without \<^verbatim>\<open>--help\<close> and with
  \<^verbatim>\<open>--version\<close> it prints the version and returns, also when an extension flag is
  set, since the version is tested first. Both traces are console output only: no fork or
  send, no reading of the environment signal, no request, no start of a server.
\<close>

theorem help_and_version_come_first:
  assumes "\<not> isChild env"
  shows "(truthy_bool (arg_help args) \<longrightarrow>
            entry env (Inr (args, cliArgs, configArgs)) = (help_output env, Returned ()))
     \<and> (\<not> truthy_bool (arg_help args) \<and> truthy_bool (arg_version args) \<longrightarrow>
            entry env (Inr (args, cliArgs, configArgs)) = (version_output env args, Returned ()))
     \<and> filter is_console (help_output env) = help_output env
     \<and> filter is_arbitration (help_output env) = []
     \<and> filter is_console (version_output env args) = version_output env args
     \<and> filter is_arbitration (version_output env args) = []"
  using assms help_output_console [of env] version_output_console [of env args]
    all_console_no_arbitration [OF help_output_console, of env]
    all_console_no_arbitration [OF version_output_console, of env args]
  by (simp add: entry_def)

theorem help_and_version_come_first_witness:
  "\<not> isChild example_env \<and>
   truthy_bool (arg_help (example_args\<lparr>arg_help := Some True, arg_version := Some True,
       arg_install_extension := Some [''ms-python.python'']\<rparr>)) \<and>
   entry example_env
       (Inr (example_args\<lparr>arg_help := Some True, arg_version := Some True,
               arg_install_extension := Some [''ms-python.python'']\<rparr>,
             example_args, example_args)) =
     ([ConsoleLog [''code-server'', ''3.4.1'', ''development''],
       ConsoleLog [[]],
       ConsoleLog [''Usage: code-server [options] [path]''],
       ConsoleLog [[]],
       ConsoleLog [''Options''],
       ConsoleLog [[], ''-h --help'']],
      Returned ()) \<and>
   \<not> truthy_bool (arg_help (example_args\<lparr>arg_version := Some True,
       arg_list_extensions := Some True\<rparr>)) \<and>
   truthy_bool (arg_version (example_args\<lparr>arg_version := Some True,
       arg_list_extensions := Some True\<rparr>)) \<and>
   shouldRunVsCodeCli (example_args\<lparr>arg_version := Some True,
       arg_list_extensions := Some True\<rparr>) \<and>
   entry example_env
       (Inr (example_args\<lparr>arg_version := Some True, arg_list_extensions := Some True\<rparr>,
             example_args, example_args)) =
     ([ConsoleLog [''3.4.1'', ''development'']], Returned ())"
proof -
  have parent: "\<not> isChild example_env"
    by (simp add: example_env_def)
  have asked: "truthy_bool (arg_help (example_args\<lparr>arg_help := Some True,
       arg_version := Some True, arg_install_extension := Some [''ms-python.python'']\<rparr>))"
    by (simp add: truthy_bool_def)
  have usage: "help_output example_env =
     [ConsoleLog [''code-server'', ''3.4.1'', ''development''],
       ConsoleLog [[]],
       ConsoleLog [''Usage: code-server [options] [path]''],
       ConsoleLog [[]],
       ConsoleLog [''Options''],
       ConsoleLog [[], ''-h --help'']]"
    by (simp add: help_output_def version_def commit_def or_development_def truthy_string_def
        example_env_def)
  have flags: "\<not> truthy_bool (arg_help (example_args\<lparr>arg_version := Some True,
       arg_list_extensions := Some True\<rparr>))"
    "truthy_bool (arg_version (example_args\<lparr>arg_version := Some True,
       arg_list_extensions := Some True\<rparr>))"
    "shouldRunVsCodeCli (example_args\<lparr>arg_version := Some True,
       arg_list_extensions := Some True\<rparr>)"
    by (simp_all add: truthy_bool_def example_args_def shouldRunVsCodeCli_def)
  have printed: "version_output example_env
       (example_args\<lparr>arg_version := Some True, arg_list_extensions := Some True\<rparr>) =
     [ConsoleLog [''3.4.1'', ''development'']]"
    by (simp add: version_output_def version_def commit_def or_development_def
        truthy_string_def truthy_bool_def example_env_def example_args_def)
  show ?thesis
    using parent asked flags
      help_and_version_come_first [OF parent,
        of "example_args\<lparr>arg_help := Some True, arg_version := Some True,
              arg_install_extension := Some [''ms-python.python'']\<rparr>" example_args example_args]
      help_and_version_come_first [OF parent,
        of "example_args\<lparr>arg_version := Some True, arg_list_extensions := Some True\<rparr>"
          example_args example_args]
    by (simp add: usage printed)
qed

text \<open>
  C1, as the code has it. When the probe has found the address and both checks pass, the
  entry point reads the variable, delegates and returns: the trace is the request, the
  write, the end and then one log entry for each event of the request. An error of the
  request is such an event: it is logged, the call has returned \<^verbatim>\<open>true\<close>, no server is
  started and nothing is thrown to the caller.
\<close>

theorem transport_error_is_only_logged:
  assumes "\<not> isChild env" and "\<not> truthy_bool (arg_help args)"
    and "\<not> truthy_bool (arg_version args)" and "\<not> shouldRunVsCodeCli args"
    and "VSCODE_IPC_HOOK_CLI env = Some address" and "address \<noteq> []"
  shows "on_request_event (RequestError error) =
           [Log Error ''got error from VS Code'' [(''error'', PString error)]]
     \<and> (snd (openInExistingInstance (files env) args address) = Returned True \<longrightarrow>
          entry env (Inr (args, cliArgs, configArgs)) =
            ([GetEnv ''VSCODE_IPC_HOOK_CLI'',
              HttpRequest \<lparr>req_path = ''/'', req_method = ''POST'', req_socketPath = address\<rparr>,
              Write (buildPipeArgs (files env) args), End]
               @ concat (map on_request_event (request_events env)),
             Returned ()))
     \<and> (snd (openInExistingInstance (files env) args address) = Returned True
          \<or> snd (openInExistingInstance (files env) args address) = Exited 1)
     \<and> filter is_server_start (fst (entry env (Inr (args, cliArgs, configArgs)))) = []
     \<and> (snd (entry env (Inr (args, cliArgs, configArgs))) = Returned ()
          \<or> snd (entry env (Inr (args, cliArgs, configArgs))) = Exited 1)"
proof -
  note run = entry_delegates [OF assms, of cliArgs configArgs]
  from delegation_cases [of "files env" args address "request_events env"]
  show ?thesis
  proof
    assume fatal: "delegation (files env) args address (request_events env) =
        openInExistingInstance (files env) args address
      \<and> snd (openInExistingInstance (files env) args address) = Exited 1
      \<and> filter is_server_start (fst (openInExistingInstance (files env) args address)) = []"
    then show ?thesis
      by (simp add: run dropped_def is_server_start_def)
  next
    assume sent: "delegation (files env) args address (request_events env) =
       ([HttpRequest \<lparr>req_path = ''/'', req_method = ''POST'', req_socketPath = address\<rparr>,
         Write (buildPipeArgs (files env) args), End]
          @ concat (map on_request_event (request_events env)),
        Returned True)"
    have returned: "snd (openInExistingInstance (files env) args address) = Returned True
          \<or> snd (openInExistingInstance (files env) args address) = Exited 1"
      by (simp add: openInExistingInstance_def Let_def)
    show ?thesis
      using returned
      by (simp add: run sent dropped_def is_server_start_def request_events_no_server_start)
  qed
qed

theorem transport_error_is_only_logged_witness:
  "\<not> isChild example_env \<and> \<not> truthy_bool (arg_help example_args) \<and>
   \<not> truthy_bool (arg_version example_args) \<and> \<not> shouldRunVsCodeCli example_args \<and>
   VSCODE_IPC_HOOK_CLI example_env = Some ''/tmp/vscode.sock'' \<and> ''/tmp/vscode.sock'' \<noteq> [] \<and>
   request_events example_env = [RequestError ''ECONNREFUSED''] \<and>
   snd (openInExistingInstance (files example_env) example_args ''/tmp/vscode.sock'')
     = Returned True \<and>
   entry example_env (Inr (example_args, example_args, example_args)) =
     ([GetEnv ''VSCODE_IPC_HOOK_CLI'',
       HttpRequest \<lparr>req_path = ''/'', req_method = ''POST'',
                    req_socketPath = ''/tmp/vscode.sock''\<rparr>,
       Write \<lparr>msg_type = ''open'', folderURIs = [''/tmp/proj''], fileURIs = [''/tmp/a.txt''],
              forceReuseWindow = None, forceNewWindow = None\<rparr>,
       End,
       Log Error ''got error from VS Code'' [(''error'', PString ''ECONNREFUSED'')]],
      Returned ())"
proof -
  have parent: "\<not> isChild example_env"
    and address: "VSCODE_IPC_HOOK_CLI example_env = Some ''/tmp/vscode.sock''"
    and events: "request_events example_env = [RequestError ''ECONNREFUSED'']"
    and fs: "files example_env = example_fs"
    by (simp_all add: example_env_def)
  have flags: "\<not> truthy_bool (arg_help example_args)" "\<not> truthy_bool (arg_version example_args)"
    "\<not> shouldRunVsCodeCli example_args"
    by (simp_all add: example_args_def truthy_bool_def truthy_array_def shouldRunVsCodeCli_def)
  have filled: "''/tmp/vscode.sock'' \<noteq> []"
    by simp
  have built: "buildPipeArgs example_fs example_args =
      \<lparr>msg_type = ''open'', folderURIs = [''/tmp/proj''], fileURIs = [''/tmp/a.txt''],
       forceReuseWindow = None, forceNewWindow = None\<rparr>"
    by (simp add: buildPipeArgs_def initialPipeArgs_def example_args_def example_fs_def
        isDir_def Let_def)
  have returned: "snd (openInExistingInstance (files example_env) example_args ''/tmp/vscode.sock'')
     = Returned True"
    by (simp add: openInExistingInstance_def Let_def fs built truthy_bool_def)
  show ?thesis
    using parent flags address events returned
      transport_error_is_only_logged [OF parent flags address filled,
        of "''ECONNREFUSED''" example_args example_args]
    by (simp add: fs built)
qed

text \<open>
  The socket refuses the connection: the delegation has returned \<^verbatim>\<open>true\<close>, and the trace
  of the entry point starts no server.
\<close>

theorem transport_error_counterexample:
  "snd (delegation example_fs example_args ''/tmp/vscode.sock'' [RequestError ''ECONNREFUSED''])
     = Returned True \<and>
   filter is_server_start
     (fst (entry example_env (Inr (example_args, example_args, example_args)))) = []"
proof -
  have built: "buildPipeArgs example_fs example_args =
      \<lparr>msg_type = ''open'', folderURIs = [''/tmp/proj''], fileURIs = [''/tmp/a.txt''],
       forceReuseWindow = None, forceNewWindow = None\<rparr>"
    by (simp add: buildPipeArgs_def initialPipeArgs_def example_args_def example_fs_def
        isDir_def Let_def)
  have call: "openInExistingInstance example_fs example_args ''/tmp/vscode.sock'' =
      ([HttpRequest \<lparr>req_path = ''/'', req_method = ''POST'',
                     req_socketPath = ''/tmp/vscode.sock''\<rparr>,
        Write (buildPipeArgs example_fs example_args), End],
       Returned True)"
    by (simp add: openInExistingInstance_def Let_def built truthy_bool_def)
  have run: "delegation example_fs example_args ''/tmp/vscode.sock''
      [RequestError ''ECONNREFUSED''] =
      ([HttpRequest \<lparr>req_path = ''/'', req_method = ''POST'',
                     req_socketPath = ''/tmp/vscode.sock''\<rparr>,
        Write (buildPipeArgs example_fs example_args), End,
        Log Error ''got error from VS Code'' [(''error'', PString ''ECONNREFUSED'')]],
       Returned True)"
    by (simp add: delegation_def call)
  have flags: "\<not> truthy_bool (arg_help example_args)" "\<not> truthy_bool (arg_version example_args)"
    "\<not> shouldRunVsCodeCli example_args"
    by (simp_all add: example_args_def truthy_bool_def truthy_array_def shouldRunVsCodeCli_def)
  have "fst (entry example_env (Inr (example_args, example_args, example_args))) =
      GetEnv ''VSCODE_IPC_HOOK_CLI''
        # fst (delegation example_fs example_args ''/tmp/vscode.sock''
               [RequestError ''ECONNREFUSED''])"
    using flags
    by (simp add: entry_def shouldOpenInExistingInstance_def truthy_string_def example_env_def
        split: prod.splits)
  then show ?thesis
    by (simp add: run is_server_start_def)
qed

end
